theory Spec2Isabelle
  imports Main
begin

section \<open>Data model\<close>

text \<open>
  Document identifiers (Mongo ObjectIds) are natural numbers; instants are milliseconds
  since the epoch, as \<^verbatim>\<open>Date.getTime()\<close> gives them. Status and type fields stay
  strings, as in the schemas: \<^verbatim>\<open>updateMany\<close> writes values that the schema's enum does
  not list, so an enumeration type would exclude states the code reaches.
\<close>

type_synonym oid = nat
type_synonym millis = int

datatype error = ReferenceError | TypeError | ValidationError | SendError | AudioError

text \<open>
  An identifier as the JavaScript value a caller passes: the ObjectId itself (as in
  \<^verbatim>\<open>schedule._id\<close>), or the string it serialises to. A job payload passes through
  JSON, so the identifier a queued job carries is always the string form, and
  \<^verbatim>\<open>===\<close> between that string and an ObjectId is false. In a query filter the
  database layer casts either form to the ObjectId. Strings that are not the
  serialisation of an ObjectId are not modelled.
\<close>

datatype id_value = ObjectId oid | IdString oid

fun id_of :: "id_value \<Rightarrow> oid" where
  "id_of (ObjectId n) = n"
| "id_of (IdString n) = n"

text \<open>
  \<^verbatim>\<open>job.data.scheduleId === scheduleId\<close>, the left side being the string form of the
  identifier \<open>stored\<close> in the payload.
\<close>

fun payload_id_equals :: "oid \<Rightarrow> id_value \<Rightarrow> bool" where
  "payload_id_equals stored (IdString n) = (stored = n)"
| "payload_id_equals stored (ObjectId n) = False"

text \<open>models/Medication.js: the fields the scheduling core reads.\<close>

record timeSlot =
  ts_time :: string
  ts_dose :: string

record med_schedule =
  frequency :: string
  times :: "timeSlot list"
  daysOfWeek :: "int list"
  dayOfMonth :: "int option"
  startDate :: "millis option"
  endDate :: "millis option"
  duration :: "int option"

record medication =
  med_id :: oid
  med_userId :: oid
  schedule :: med_schedule
  form :: "string option"
  criticalMedication :: bool
  adherence_rate :: int

text \<open>models/Schedule.js: one occurrence.\<close>

record dose =
  dose_amount :: string
  dose_unit :: string

record reminder_entry =
  sentAt :: millis
  rem_type :: string
  delivered :: bool

record schedule_doc =
  sch_id :: oid
  sch_userId :: oid
  sch_medicationId :: oid
  scheduledTime :: millis
  sch_dose :: dose
  status :: string
  reminders :: "reminder_entry list"
  escalation_level :: int
  lastEscalatedAt :: "millis option"
  caregiverAlerted :: bool
  caregiverAlertedAt :: "millis option"

text \<open>models/User.js.\<close>

record caregiver =
  cg_phoneNumber :: string
  cg_relationship :: "string option"

record quietHours =
  qh_enabled :: bool
  qh_start :: string
  qh_end :: string

record user =
  user_id :: oid
  whatsappId :: string
  phoneNumber :: string
  voiceReminders :: bool
  escalationEnabled :: bool
  quiet :: quietHours
  caregivers :: "caregiver list"
  subscription_type :: string
  validUntil :: "millis option"
  clinicId :: "oid option"
  timezone :: "string option"

text \<open>models/Escalation.js.\<close>

record caregiver_block =
  notified :: bool
  cb_phoneNumber :: string
  cb_relationship :: "string option"
  notifiedAt :: millis

record escalation_doc =
  e_id :: oid
  e_userId :: oid
  e_medicationId :: oid
  e_scheduleId :: oid
  e_level :: int
  e_type :: string
  e_status :: string
  e_caregiver :: "caregiver_block option"
  resolved :: bool
  resolvedAt :: "millis option"
  resolvedBy :: "string option"
  meta_criticalMedication :: bool
  meta_adherenceRate :: int

text \<open>
  Queue jobs. The job id template \<^verbatim>\<open>reminder-<scheduleId>-<Date.now()>\<close> is kept as
  its components. A job added with a positive delay is \<open>Delayed\<close>, otherwise it is
  \<open>Waiting\<close> (the queue library clamps a negative delay to zero). The field for the
  occurrence holds the identifier whose string form the payload carries.
\<close>

datatype jobstate = Delayed | Waiting | Active | Completed | Failed

record reminder_job =
  rj_id :: "oid \<times> millis"
  rj_scheduleId :: oid
  rj_isSnoozed :: bool
  rj_scheduledTime :: millis
  rj_delay :: int
  rj_state :: jobstate

record escalation_job =
  ej_id :: "oid \<times> int \<times> millis"
  ej_scheduleId :: oid
  ej_level :: int
  ej_scheduledFor :: millis
  ej_delay :: int
  ej_state :: jobstate

text \<open>
  Outbound notifications, recorded by recipient and message template; the message
  wording is not modelled.
\<close>

datatype template =
  ReminderText | ReplyWith | UrgentReminder | PleaseRespond | CaregiverAlert | CriticalAlert

datatype notification =
  TextMessage string template
| VoiceNote string
| VoiceCall string

record timer =
  t_delay :: int
  t_scheduleId :: oid
  t_level :: int

text \<open>
  The whole system state: the clock, the four collections, the two queues, the
  notifications sent so far and the in-process timers registered with
  \<^verbatim>\<open>setTimeout\<close>. Log output is not part of the state.
\<close>

record world =
  now :: millis
  ticks :: "nat list"
  nextId :: oid
  users :: "user list"
  medications :: "medication list"
  schedules :: "schedule_doc list"
  escalations :: "escalation_doc list"
  reminderQ :: "reminder_job list"
  escalationQ :: "escalation_job list"
  outbox :: "notification list"
  timers :: "timer list"

text \<open>
  What the process finds around it: the server's zone offset (a fixed offset from UTC,
  so no daylight-saving shifts), the environment variable \<^verbatim>\<open>ENABLE_VOICE_CALLS\<close>
  (\<open>None\<close> when unset), and whether each collaborator call succeeds.
\<close>

record env =
  tzOffset :: int
  ENABLE_VOICE_CALLS :: "string option"
  whatsapp_ok :: "string \<Rightarrow> bool"
  audio_ok :: bool
  twilio_ok :: bool

section \<open>The clock\<close>

text \<open>
  Every \<^verbatim>\<open>new Date()\<close> and \<^verbatim>\<open>Date.now()\<close> of the source is one \<open>clock_read\<close>: it
  returns the current instant, after which the clock advances by the next tick. Ticks
  are natural numbers, so the clock never runs backwards; with no ticks left, time
  stands still.
\<close>

definition clock_read :: "world \<Rightarrow> millis \<times> world" where
  "clock_read w =
     (now w, case ticks w of [] \<Rightarrow> w | d # ds \<Rightarrow> w\<lparr>now := now w + int d, ticks := ds\<rparr>)"

section \<open>queues/reminderQueue.js and queues/escalationQueue.js\<close>

definition jobstate_of_delay :: "int \<Rightarrow> jobstate" where
  "jobstate_of_delay d = (if 0 < d then Delayed else Waiting)"

text \<open>\<^verbatim>\<open>addReminder({ scheduleId, scheduledTime, isSnoozed = false })\<close>\<close>

definition addReminder :: "oid \<Rightarrow> millis \<Rightarrow> bool \<Rightarrow> world \<Rightarrow> reminder_job option \<times> world" where
  "addReminder scheduleId schedTime isSnoozed w =
     (let (t1, w1) = clock_read w;
          delay = schedTime - t1
      in if delay < 0 then (None, w1)
         else
           let (t2, w2) = clock_read w1;
               job = \<lparr> rj_id = (scheduleId, t2), rj_scheduleId = scheduleId,
                       rj_isSnoozed = isSnoozed, rj_scheduledTime = schedTime,
                       rj_delay = delay, rj_state = jobstate_of_delay delay \<rparr>
           in (Some job, w2\<lparr>reminderQ := reminderQ w2 @ [job]\<rparr>))"

text \<open>\<^verbatim>\<open>addEscalation({ scheduleId, level, scheduledFor })\<close>: no check on the delay.\<close>

definition addEscalation :: "oid \<Rightarrow> int \<Rightarrow> millis \<Rightarrow> world \<Rightarrow> escalation_job \<times> world" where
  "addEscalation scheduleId level scheduledFor w =
     (let (t1, w1) = clock_read w;
          delay = scheduledFor - t1;
          (t2, w2) = clock_read w1;
          job = \<lparr> ej_id = (scheduleId, level, t2), ej_scheduleId = scheduleId,
                  ej_level = level, ej_scheduledFor = scheduledFor,
                  ej_delay = delay, ej_state = jobstate_of_delay delay \<rparr>
      in (job, w2\<lparr>escalationQ := escalationQ w2 @ [job]\<rparr>))"

text \<open>
  \<^verbatim>\<open>removeByScheduleId\<close> (same body in both queues): of the jobs fetched in state
  delayed or waiting, those whose payload identifier is strictly equal to the argument
  are removed; the count removed is returned.
\<close>

definition reminder_removable :: "id_value \<Rightarrow> reminder_job \<Rightarrow> bool" where
  "reminder_removable scheduleId j \<longleftrightarrow>
     (rj_state j = Delayed \<or> rj_state j = Waiting) \<and>
     payload_id_equals (rj_scheduleId j) scheduleId"

definition reminder_removeByScheduleId :: "id_value \<Rightarrow> world \<Rightarrow> nat \<times> world" where
  "reminder_removeByScheduleId scheduleId w =
     (let toRemove = filter (reminder_removable scheduleId) (reminderQ w)
      in (length toRemove,
          w\<lparr>reminderQ := filter (\<lambda>j. \<not> reminder_removable scheduleId j) (reminderQ w)\<rparr>))"

definition escalation_removable :: "id_value \<Rightarrow> escalation_job \<Rightarrow> bool" where
  "escalation_removable scheduleId j \<longleftrightarrow>
     (ej_state j = Delayed \<or> ej_state j = Waiting) \<and>
     payload_id_equals (ej_scheduleId j) scheduleId"

definition escalation_removeByScheduleId :: "id_value \<Rightarrow> world \<Rightarrow> nat \<times> world" where
  "escalation_removeByScheduleId scheduleId w =
     (let toRemove = filter (escalation_removable scheduleId) (escalationQ w)
      in (length toRemove,
          w\<lparr>escalationQ := filter (\<lambda>j. \<not> escalation_removable scheduleId j) (escalationQ w)\<rparr>))"

text \<open>
  \<^verbatim>\<open>removeByMedicationId\<close>: the body is a single log call
  (\<^verbatim>\<open>// Implementation would require storing medicationId in job data\<close>).
\<close>

definition removeByMedicationId :: "oid \<Rightarrow> world \<Rightarrow> world" where
  "removeByMedicationId medicationId w = w"

section \<open>Collaborators and stores\<close>

text \<open>
  An awaited call that can reject returns \<open>Inl\<close> the error together with the state
  reached so far: what was written before the throw stays written.
\<close>

definition andThen ::
  "(error + 'a) \<times> world \<Rightarrow> ('a \<Rightarrow> world \<Rightarrow> (error + 'b) \<times> world) \<Rightarrow> (error + 'b) \<times> world" where
  "andThen r f = (case r of (Inl e, w) \<Rightarrow> (Inl e, w) | (Inr a, w) \<Rightarrow> f a w)"

text \<open>whatsappService.sendMessage / sendVoiceNote: log and rethrow on failure.\<close>

definition sendMessage :: "env \<Rightarrow> string \<Rightarrow> template \<Rightarrow> world \<Rightarrow> (error + unit) \<times> world" where
  "sendMessage ev to tpl w =
     (if whatsapp_ok ev to then (Inr (), w\<lparr>outbox := outbox w @ [TextMessage to tpl]\<rparr>)
      else (Inl SendError, w))"

definition sendVoiceNote :: "env \<Rightarrow> string \<Rightarrow> world \<Rightarrow> (error + unit) \<times> world" where
  "sendVoiceNote ev to w =
     (if whatsapp_ok ev to then (Inr (), w\<lparr>outbox := outbox w @ [VoiceNote to]\<rparr>)
      else (Inl SendError, w))"

text \<open>voiceService.generateAudio: the audio URL itself is not modelled.\<close>

definition generateAudio :: "env \<Rightarrow> world \<Rightarrow> (error + unit) \<times> world" where
  "generateAudio ev w = (if audio_ok ev then (Inr (), w) else (Inl AudioError, w))"

text \<open>\<^verbatim>\<open>Model.findById\<close> and a \<^verbatim>\<open>save()\<close> of the paths a handler modified.\<close>

definition Schedule_findById :: "oid \<Rightarrow> world \<Rightarrow> schedule_doc option" where
  "Schedule_findById i w = find (\<lambda>s. sch_id s = i) (schedules w)"

definition User_findById :: "oid \<Rightarrow> world \<Rightarrow> user option" where
  "User_findById i w = find (\<lambda>u. user_id u = i) (users w)"

definition Medication_findById :: "oid \<Rightarrow> world \<Rightarrow> medication option" where
  "Medication_findById i w = find (\<lambda>m. med_id m = i) (medications w)"

definition Schedule_save :: "oid \<Rightarrow> (schedule_doc \<Rightarrow> schedule_doc) \<Rightarrow> world \<Rightarrow> world" where
  "Schedule_save i f w =
     w\<lparr>schedules := map (\<lambda>s. if sch_id s = i then f s else s) (schedules w)\<rparr>"

definition Escalation_save :: "oid \<Rightarrow> (escalation_doc \<Rightarrow> escalation_doc) \<Rightarrow> world \<Rightarrow> world" where
  "Escalation_save i f w =
     w\<lparr>escalations := map (\<lambda>e. if e_id e = i then f e else e) (escalations w)\<rparr>"

text \<open>
  \<^verbatim>\<open>Escalation.create\<close> validates against the schema before it writes:
  \<^verbatim>\<open>level: { min: 1, max: 5 }\<close> and
  \<^verbatim>\<open>type: { enum: ['reminder', 'urgent', 'voice_call', 'caregiver', 'clinic'] }\<close>.
  The status defaults to \<^verbatim>\<open>'pending'\<close>; an unset Boolean reads as false.
\<close>

definition escalation_type_enum :: "string list" where
  "escalation_type_enum = [''reminder'', ''urgent'', ''voice_call'', ''caregiver'', ''clinic'']"

definition Escalation_create ::
  "oid \<Rightarrow> oid \<Rightarrow> oid \<Rightarrow> int \<Rightarrow> string \<Rightarrow> bool \<Rightarrow> int \<Rightarrow> world \<Rightarrow> (error + escalation_doc) \<times> world" where
  "Escalation_create uid mid sid level ty crit rate w =
     (if level < 1 \<or> 5 < level \<or> ty \<notin> set escalation_type_enum then (Inl ValidationError, w)
      else
        let e = \<lparr> e_id = nextId w, e_userId = uid, e_medicationId = mid, e_scheduleId = sid,
                  e_level = level, e_type = ty, e_status = ''pending'', e_caregiver = None,
                  resolved = False, resolvedAt = None, resolvedBy = None,
                  meta_criticalMedication = crit, meta_adherenceRate = rate \<rparr>
        in (Inr e, w\<lparr>nextId := Suc (nextId w), escalations := escalations w @ [e]\<rparr>))"

text \<open>\<^verbatim>\<open>Schedule.create\<close> with the fields \<open>createSchedules\<close> passes; schema defaults elsewhere.\<close>

definition Schedule_create :: "oid \<Rightarrow> oid \<Rightarrow> millis \<Rightarrow> dose \<Rightarrow> world \<Rightarrow> schedule_doc \<times> world" where
  "Schedule_create uid mid t d w =
     (let s = \<lparr> sch_id = nextId w, sch_userId = uid, sch_medicationId = mid,
                 scheduledTime = t, sch_dose = d, status = ''pending'', reminders = [],
                 escalation_level = 0, lastEscalatedAt = None,
                 caregiverAlerted = False, caregiverAlertedAt = None \<rparr>
      in (s, w\<lparr>nextId := Suc (nextId w), schedules := schedules w @ [s]\<rparr>))"

section \<open>config/constants.js\<close>

text \<open>
  \<^verbatim>\<open>CONSTANTS.LIMITS\<close> holds \<^verbatim>\<open>MAX_MEDICATIONS\<close>, \<^verbatim>\<open>MAX_REMINDERS_PER_DAY\<close>,
  \<^verbatim>\<open>MAX_CAREGIVERS\<close>, \<^verbatim>\<open>MAX_IMAGE_SIZE\<close> and \<^verbatim>\<open>MAX_NICKNAME_LENGTH\<close>. It has no
  key \<^verbatim>\<open>MAX_ESCALATION_LEVEL\<close>, so reading that property yields \<^verbatim>\<open>undefined\<close>
  (\<open>None\<close>); a number compared with \<^verbatim>\<open>undefined\<close> by \<^verbatim>\<open><\<close> is false.
\<close>

definition LIMITS_MAX_ESCALATION_LEVEL :: "int option" where
  "LIMITS_MAX_ESCALATION_LEVEL = None"

definition TIMEOUTS_ESCALATION_DELAY :: int where
  "TIMEOUTS_ESCALATION_DELAY = 15 * 60 * 1000"

definition js_less :: "int \<Rightarrow> int option \<Rightarrow> bool" where
  "js_less x y = (case y of None \<Rightarrow> False | Some n \<Rightarrow> x < n)"

section \<open>services/escalationService.js\<close>

definition delays :: "(int \<times> int) list" where
  "delays = [(1, 30 * 60 * 1000), (2, 15 * 60 * 1000), (3, 15 * 60 * 1000),
             (4, 10 * 60 * 1000), (5, 5 * 60 * 1000)]"

text \<open>\<^verbatim>\<open>delays[level] || 30 * 60 * 1000\<close>: every table entry is nonzero, hence truthy.\<close>

definition getEscalationDelay :: "int \<Rightarrow> int" where
  "getEscalationDelay level =
     (case map_of delays level of Some d \<Rightarrow> d | None \<Rightarrow> 30 * 60 * 1000)"

definition scheduleEscalation :: "oid \<Rightarrow> int \<Rightarrow> world \<Rightarrow> world" where
  "scheduleEscalation scheduleId level w =
     (let delay = getEscalationDelay level;
          (t, w1) = clock_read w
      in snd (addEscalation scheduleId level (t + delay) w1))"

text \<open>
  \<^verbatim>\<open>Escalation.updateMany(filter, patch)\<close> runs no schema validators, so the status
  \<^verbatim>\<open>'cancelled'\<close> is written although the schema's enum does not list it. The filter's
  identifier is cast to the ObjectId, whichever form the caller gave.
\<close>

definition cancel_patch :: "millis \<Rightarrow> escalation_doc \<Rightarrow> escalation_doc" where
  "cancel_patch t e =
     e\<lparr>e_status := ''cancelled'', resolved := True, resolvedAt := Some t,
       resolvedBy := Some ''user''\<rparr>"

definition cancelEscalation :: "id_value \<Rightarrow> world \<Rightarrow> world" where
  "cancelEscalation scheduleId w =
     (let (n, w1) = escalation_removeByScheduleId scheduleId w;
          (t, w2) = clock_read w1
      in w2\<lparr>escalations :=
              map (\<lambda>e. if e_scheduleId e = id_of scheduleId \<and> e_status e = ''pending''
                        then cancel_patch t e else e)
                  (escalations w2)\<rparr>)"

section \<open>controllers/escalationController.js\<close>

text \<open>
  The JavaScript values that the guard of \<open>makeVoiceCall\<close> handles: a variable of
  \<^verbatim>\<open>process.env\<close> is a string or \<^verbatim>\<open>undefined\<close>, \<^verbatim>\<open>!\<close> yields a Boolean, and
  \<^verbatim>\<open>===\<close> between values of different types is false.
\<close>

datatype jsval = JUndefined | JBool bool | JString string

definition env_var :: "string option \<Rightarrow> jsval" where
  "env_var v = (case v of None \<Rightarrow> JUndefined | Some s \<Rightarrow> JString s)"

fun js_truthy :: "jsval \<Rightarrow> bool" where
  "js_truthy JUndefined = False"
| "js_truthy (JBool b) = b"
| "js_truthy (JString s) = (s \<noteq> [])"

definition js_not :: "jsval \<Rightarrow> jsval" where
  "js_not v = JBool (\<not> js_truthy v)"

definition js_strict_eq :: "jsval \<Rightarrow> jsval \<Rightarrow> bool" where
  "js_strict_eq a b \<longleftrightarrow> a = b"

definition types :: "(int \<times> string) list" where
  "types = [(1, ''urgent''), (2, ''voice_reminder''), (3, ''voice_call''),
            (4, ''caregiver''), (5, ''clinic'')]"

definition getEscalationType :: "int \<Rightarrow> string" where
  "getEscalationType level = (case map_of types level of Some t \<Rightarrow> t | None \<Rightarrow> ''unknown'')"

text \<open>
  The message templates of the level actions call \<open>getTimeAgo\<close>, which reads the
  clock once.
\<close>

definition sendUrgentReminder :: "env \<Rightarrow> user \<Rightarrow> world \<Rightarrow> (error + unit) \<times> world" where
  "sendUrgentReminder ev u w =
     (let (t, w1) = clock_read w in sendMessage ev (whatsappId u) UrgentReminder w1)"

definition sendVoiceReminder :: "env \<Rightarrow> user \<Rightarrow> world \<Rightarrow> (error + unit) \<times> world" where
  "sendVoiceReminder ev u w =
     (if \<not> voiceReminders u then sendUrgentReminder ev u w
      else
        let (t, w1) = clock_read w
        in andThen (generateAudio ev w1) (\<lambda>_ w2.
           andThen (sendVoiceNote ev (whatsappId u) w2) (\<lambda>_ w3.
           sendMessage ev (whatsappId u) PleaseRespond w3)))"

text \<open>
  \<^verbatim>\<open>if (!process.env.ENABLE_VOICE_CALLS === 'true')\<close>: the negation binds tighter
  than the comparison. The \<^verbatim>\<open>try\<close> block builds the call script (one clock read) and
  places the call; any failure there is caught and answered with the voice reminder.
\<close>

definition makeVoiceCall :: "env \<Rightarrow> user \<Rightarrow> world \<Rightarrow> (error + unit) \<times> world" where
  "makeVoiceCall ev u w =
     (if js_strict_eq (js_not (env_var (ENABLE_VOICE_CALLS ev))) (JString ''true'')
      then sendVoiceReminder ev u w
      else
        let (t, w1) = clock_read w
        in if twilio_ok ev then (Inr (), w1\<lparr>outbox := outbox w1 @ [VoiceCall (phoneNumber u)]\<rparr>)
           else sendVoiceReminder ev u w1)"

definition alertCaregiver ::
  "env \<Rightarrow> user \<Rightarrow> schedule_doc \<Rightarrow> escalation_doc \<Rightarrow> world \<Rightarrow> (error + unit) \<times> world" where
  "alertCaregiver ev u sch esc w =
     (case caregivers u of
        [] \<Rightarrow> (Inr (), w)
      | cg # _ \<Rightarrow>
          let (t0, w0) = clock_read w
          in (case sendMessage ev (cg_phoneNumber cg) CaregiverAlert w0 of
               (Inl e, w1) \<Rightarrow> (Inr (), w1)
             | (Inr _, w1) \<Rightarrow>
                (let (t1, w2) = clock_read w1;
                     w3 = Escalation_save (e_id esc)
                            (\<lambda>e. e\<lparr>e_caregiver :=
                                      Some \<lparr> notified = True,
                                             cb_phoneNumber = cg_phoneNumber cg,
                                             cb_relationship = cg_relationship cg,
                                             notifiedAt = t1 \<rparr>\<rparr>) w2;
                     (t2, w4) = clock_read w3;
                     w5 = Schedule_save (sch_id sch)
                            (\<lambda>s. s\<lparr>caregiverAlerted := True, caregiverAlertedAt := Some t2\<rparr>) w4
                 in (Inr (), w5))))"

definition alertClinic :: "env \<Rightarrow> user \<Rightarrow> world \<Rightarrow> (error + unit) \<times> world" where
  "alertClinic ev u w =
     (case clinicId u of
        None \<Rightarrow> (Inr (), w)
      | Some c \<Rightarrow> sendMessage ev (whatsappId u) CriticalAlert w)"

definition level_action ::
  "env \<Rightarrow> int \<Rightarrow> user \<Rightarrow> schedule_doc \<Rightarrow> escalation_doc \<Rightarrow> world \<Rightarrow> (error + unit) \<times> world" where
  "level_action ev level u sch esc w =
     (if level = 1 then sendUrgentReminder ev u w
      else if level = 2 then sendVoiceReminder ev u w
      else if level = 3 then makeVoiceCall ev u w
      else if level = 4 then alertCaregiver ev u sch esc w
      else if level = 5 then alertClinic ev u w
      else (Inr (), w))"

text \<open>
  \<open>handleEscalation\<close>: the populated user and medication are \<^verbatim>\<open>null\<close> when the
  referenced document is gone, and reading \<^verbatim>\<open>user._id\<close> then throws. The
  continuation is registered with \<^verbatim>\<open>setTimeout\<close> under the guard
  \<^verbatim>\<open>level < CONSTANTS.LIMITS.MAX_ESCALATION_LEVEL\<close>.
\<close>

definition handleEscalation :: "env \<Rightarrow> oid \<Rightarrow> int \<Rightarrow> world \<Rightarrow> (error + unit) \<times> world" where
  "handleEscalation ev scheduleId level w =
     (case Schedule_findById scheduleId w of
        None \<Rightarrow> (Inr (), w)
      | Some sch \<Rightarrow>
          if status sch \<noteq> ''sent'' then (Inr (), w)
          else
            (case (User_findById (sch_userId sch) w, Medication_findById (sch_medicationId sch) w) of
               (Some u, Some m) \<Rightarrow>
                 andThen (Escalation_create (user_id u) (med_id m) (sch_id sch) level
                            (getEscalationType level) (criticalMedication m) (adherence_rate m) w)
                   (\<lambda>esc w1.
                 andThen (level_action ev level u sch esc w1)
                   (\<lambda>_ w2.
                      let (t, w3) = clock_read w2;
                          w4 = Schedule_save (sch_id sch)
                                 (\<lambda>s. s\<lparr>escalation_level := level, lastEscalatedAt := Some t\<rparr>) w3
                      in if js_less level LIMITS_MAX_ESCALATION_LEVEL
                         then (Inr (), w4\<lparr>timers := timers w4 @
                                 [\<lparr> t_delay = TIMEOUTS_ESCALATION_DELAY,
                                     t_scheduleId = scheduleId, t_level = level + 1 \<rparr>]\<rparr>)
                         else (Inr (), w4)))
             | _ \<Rightarrow> (Inl TypeError, w)))"

definition checkAndEscalate :: "env \<Rightarrow> oid \<Rightarrow> int \<Rightarrow> world \<Rightarrow> (error + unit) \<times> world" where
  "checkAndEscalate ev scheduleId nextLevel w =
     (case Schedule_findById scheduleId w of
        None \<Rightarrow> (Inr (), w)
      | Some sch \<Rightarrow>
          if status sch \<noteq> ''sent'' then (Inr (), w)
          else handleEscalation ev scheduleId nextLevel w)"

section \<open>controllers/reminderController.js\<close>

text \<open>
  \<^verbatim>\<open>parseInt(s)\<close> without a radix: leading white space is skipped, a sign is read, a
  prefix \<^verbatim>\<open>0x\<close> selects base 16, and the longest run of digits is the value; with no
  digit the result is \<^verbatim>\<open>NaN\<close> (\<open>None\<close>). White space is the ASCII set.
\<close>

definition js_whitespace :: "char \<Rightarrow> bool" where
  "js_whitespace c \<longleftrightarrow> c \<in> set [CHR '' '', CHR 0x09, CHR 0x0A, CHR 0x0B, CHR 0x0C, CHR 0x0D]"

definition digit_val :: "char \<Rightarrow> nat option" where
  "digit_val c =
     (let n = (of_char c :: nat)
      in if 48 \<le> n \<and> n \<le> 57 then Some (n - 48)
         else if 97 \<le> n \<and> n \<le> 122 then Some (n - 87)
         else if 65 \<le> n \<and> n \<le> 90 then Some (n - 55)
         else None)"

definition is_digit :: "nat \<Rightarrow> char \<Rightarrow> bool" where
  "is_digit radix c = (case digit_val c of None \<Rightarrow> False | Some d \<Rightarrow> d < radix)"

definition digits_value :: "nat \<Rightarrow> string \<Rightarrow> nat" where
  "digits_value radix ds = foldl (\<lambda>acc c. acc * radix + (case digit_val c of Some d \<Rightarrow> d | None \<Rightarrow> 0)) 0 ds"

definition parse_radix :: "nat \<Rightarrow> string \<Rightarrow> int option" where
  "parse_radix radix s =
     (let ds = takeWhile (is_digit radix) s
      in if ds = [] then None else Some (int (digits_value radix ds)))"

definition parseInt :: "string \<Rightarrow> int option" where
  "parseInt str =
     (let s = dropWhile js_whitespace str;
          neg = (case s of c # _ \<Rightarrow> c = CHR ''-'' | [] \<Rightarrow> False);
          s1 = (case s of c # r \<Rightarrow> if c = CHR ''+'' \<or> c = CHR ''-'' then r else s | [] \<Rightarrow> s);
          hex = (case s1 of a # b # _ \<Rightarrow> a = CHR ''0'' \<and> (b = CHR ''x'' \<or> b = CHR ''X'') | _ \<Rightarrow> False);
          v = (if hex then parse_radix 16 (drop 2 s1) else parse_radix 10 s1)
      in map_option (\<lambda>n. if neg then - n else n) v)"

text \<open>Comparisons in which \<^verbatim>\<open>NaN\<close> (\<open>None\<close>) may occur are false as soon as it does.\<close>

definition nan_le :: "int option \<Rightarrow> int option \<Rightarrow> bool" where
  "nan_le a b = (case (a, b) of (Some x, Some y) \<Rightarrow> x \<le> y | _ \<Rightarrow> False)"

definition nan_less :: "int option \<Rightarrow> int option \<Rightarrow> bool" where
  "nan_less a b = (case (a, b) of (Some x, Some y) \<Rightarrow> x < y | _ \<Rightarrow> False)"

text \<open>\<^verbatim>\<open>Date.getHours()\<close> in the server's zone.\<close>

definition getHours :: "env \<Rightarrow> millis \<Rightarrow> int" where
  "getHours ev t = ((t + tzOffset ev) div 3600000) mod 24"

text \<open>\<^verbatim>\<open>s.split(':')[0]\<close>: the text before the first colon.\<close>

definition before_colon :: "string \<Rightarrow> string" where
  "before_colon s = takeWhile (\<lambda>c. c \<noteq> CHR '':'') s"

definition isQuietHours :: "env \<Rightarrow> user \<Rightarrow> world \<Rightarrow> bool \<times> world" where
  "isQuietHours ev u w =
     (if \<not> qh_enabled (quiet u) then (False, w)
      else
        let (t, w1) = clock_read w;
            currentHour = Some (getHours ev t);
            start = parseInt (before_colon (qh_start (quiet u)));
            end = parseInt (before_colon (qh_end (quiet u)))
        in if nan_le start end
           then (nan_le start currentHour \<and> nan_less currentHour end, w1)
           else (nan_le start currentHour \<or> nan_less currentHour end, w1))"

text \<open>
  \<^verbatim>\<open>user.isSubscribed()\<close> (models/User.js): the clock is read only when the
  subscription type is premium.
\<close>

definition isSubscribed :: "user \<Rightarrow> world \<Rightarrow> bool \<times> world" where
  "isSubscribed u w =
     (if subscription_type u \<noteq> ''premium'' then (False, w)
      else
        let (t, w1) = clock_read w
        in (case validUntil u of None \<Rightarrow> False | Some v \<Rightarrow> t < v, w1))"

definition sendTextReminder :: "env \<Rightarrow> user \<Rightarrow> world \<Rightarrow> (error + unit) \<times> world" where
  "sendTextReminder ev u w = sendMessage ev (whatsappId u) ReminderText w"

definition reminder_sendVoiceReminder :: "env \<Rightarrow> user \<Rightarrow> world \<Rightarrow> (error + unit) \<times> world" where
  "reminder_sendVoiceReminder ev u w =
     andThen (generateAudio ev w) (\<lambda>_ w1.
     andThen (sendVoiceNote ev (whatsappId u) w1) (\<lambda>_ w2.
     sendMessage ev (whatsappId u) ReplyWith w2))"

definition sendReminder :: "env \<Rightarrow> oid \<Rightarrow> world \<Rightarrow> (error + unit) \<times> world" where
  "sendReminder ev scheduleId w =
     (case Schedule_findById scheduleId w of
        None \<Rightarrow> (Inr (), w)
      | Some sch \<Rightarrow>
          if status sch \<noteq> ''pending'' then (Inr (), w)
          else
            (case User_findById (sch_userId sch) w of
               None \<Rightarrow> (Inl TypeError, w)
             | Some u \<Rightarrow>
                (let (q, w1) = isQuietHours ev u w
                 in if q then (Inr (), w1)
                    else
                      (case Medication_findById (sch_medicationId sch) w of
                         None \<Rightarrow> (Inl TypeError, w1)
                       | Some m \<Rightarrow>
                          (let (sub, w2) = (if voiceReminders u then isSubscribed u w1
                                            else (False, w1))
                           in andThen (if sub then reminder_sendVoiceReminder ev u w2
                                       else sendTextReminder ev u w2)
                                (\<lambda>_ w3.
                                   let (t, w4) = clock_read w3;
                                       w5 = Schedule_save (sch_id sch)
                                              (\<lambda>s. s\<lparr>status := ''sent'',
                                                      reminders := reminders s @
                                                        [\<lparr> sentAt = t, rem_type = ''initial'',
                                                            delivered = True \<rparr>]\<rparr>) w4
                                   in if escalationEnabled u
                                      then (Inr (), scheduleEscalation scheduleId 1 w5)
                                      else (Inr (), w5)))))))"

section \<open>services/schedulerService.js\<close>

text \<open>
  \<^verbatim>\<open>Date\<close> arithmetic in the server's zone. With a fixed offset a calendar day is
  86400000 ms, \<^verbatim>\<open>setDate(getDate() + 1)\<close> adds one such day, and
  \<^verbatim>\<open>setHours(h, m, 0, 0)\<close> is local midnight plus the given hours and minutes (values
  beyond 23 or 59 carry over, as in JavaScript). The day of the month follows the
  proleptic Gregorian calendar; 1 January 1970 was a Thursday.
\<close>

definition DAY_MS :: int where
  "DAY_MS = 24 * 60 * 60 * 1000"

definition local_days :: "env \<Rightarrow> millis \<Rightarrow> int" where
  "local_days ev t = (t + tzOffset ev) div DAY_MS"

definition getDay :: "env \<Rightarrow> millis \<Rightarrow> int" where
  "getDay ev t = (local_days ev t + 4) mod 7"

definition getDate :: "env \<Rightarrow> millis \<Rightarrow> int" where
  "getDate ev t =
     (let z = local_days ev t + 719468;
          era = z div 146097;
          doe = z - era * 146097;
          yoe = (doe - doe div 1460 + doe div 36524 - doe div 146096) div 365;
          doy = doe - (365 * yoe + yoe div 4 - yoe div 100);
          mp = (5 * doy + 2) div 153
      in doy - (153 * mp + 2) div 5 + 1)"

definition setHours :: "env \<Rightarrow> millis \<Rightarrow> int \<Rightarrow> int \<Rightarrow> millis" where
  "setHours ev t h m = local_days ev t * DAY_MS - tzOffset ev + h * 3600000 + m * 60000"

definition shouldScheduleToday :: "env \<Rightarrow> medication \<Rightarrow> millis \<Rightarrow> bool" where
  "shouldScheduleToday ev medication date =
     (if frequency (schedule medication) = ''daily'' then True
      else if frequency (schedule medication) = ''weekly''
        then getDay ev date \<in> set (daysOfWeek (schedule medication))
      else if frequency (schedule medication) = ''monthly''
        then Some (getDate ev date) = dayOfMonth (schedule medication)
      else False)"

text \<open>
  \<^verbatim>\<open>timeString.split(':').map(Number)\<close>. \<open>js_Number\<close> covers the strings of decimal
  digits (the empty string is 0); any other string is taken as \<^verbatim>\<open>NaN\<close>. A missing or
  \<^verbatim>\<open>NaN\<close> component makes \<^verbatim>\<open>setHours\<close> produce an invalid date (\<open>None\<close>).
  \<^verbatim>\<open>moment.tz(date, zone).toDate()\<close> returns the instant it was given.
\<close>

fun split_colon :: "string \<Rightarrow> string list" where
  "split_colon [] = [[]]"
| "split_colon (c # cs) =
     (if c = CHR '':'' then [] # split_colon cs
      else (case split_colon cs of p # ps \<Rightarrow> (c # p) # ps | [] \<Rightarrow> [[c]]))"

definition js_Number :: "string \<Rightarrow> int option" where
  "js_Number s = (if list_all (is_digit 10) s then Some (int (digits_value 10 s)) else None)"

definition getScheduledTime :: "env \<Rightarrow> millis \<Rightarrow> string \<Rightarrow> string \<Rightarrow> millis option" where
  "getScheduledTime ev date timeString tz =
     (case map js_Number (split_colon timeString) of
        Some hours # Some minutes # _ \<Rightarrow> Some (setHours ev date hours minutes)
      | _ \<Rightarrow> None)"

text \<open>\<^verbatim>\<open>medication.encryptedData.form || 'unit'\<close>\<close>

definition dose_unit_of :: "medication \<Rightarrow> string" where
  "dose_unit_of medication =
     (case form medication of None \<Rightarrow> ''unit'' | Some f \<Rightarrow> if f = [] then ''unit'' else f)"

text \<open>The inner \<^verbatim>\<open>for (const timeSlot of medication.schedule.times)\<close>.\<close>

fun slot_loop ::
  "env \<Rightarrow> medication \<Rightarrow> string \<Rightarrow> millis \<Rightarrow> timeSlot list \<Rightarrow> schedule_doc list \<times> world
     \<Rightarrow> schedule_doc list \<times> world" where
  "slot_loop ev medication tz currentDate [] (acc, w) = (acc, w)"
| "slot_loop ev medication tz currentDate (timeSlot # rest) (acc, w) =
     (let st = getScheduledTime ev currentDate (ts_time timeSlot) tz;
          (t, w1) = clock_read w
      in if nan_less (Some t) st
         then
           (case st of
              None \<Rightarrow> slot_loop ev medication tz currentDate rest (acc, w1)
            | Some schedTime \<Rightarrow>
               (let (sch, w2) = Schedule_create (med_userId medication) (med_id medication)
                                  schedTime
                                  \<lparr> dose_amount = ts_dose timeSlot,
                                     dose_unit = dose_unit_of medication \<rparr> w1;
                    (job, w3) = addReminder (sch_id sch) schedTime False w2
                in slot_loop ev medication tz currentDate rest (acc @ [sch], w3)))
         else slot_loop ev medication tz currentDate rest (acc, w1))"

text \<open>The outer \<^verbatim>\<open>while (currentDate <= endDate)\<close>.\<close>

function day_loop ::
  "env \<Rightarrow> medication \<Rightarrow> string \<Rightarrow> millis \<Rightarrow> millis \<Rightarrow> schedule_doc list \<times> world
     \<Rightarrow> schedule_doc list \<times> world" where
  "day_loop ev medication tz currentDate endD aw =
     (if currentDate \<le> endD
      then day_loop ev medication tz (currentDate + DAY_MS) endD
             (if shouldScheduleToday ev medication currentDate
              then slot_loop ev medication tz currentDate (times (schedule medication)) aw
              else aw)
      else aw)"
  by pat_completeness auto
termination
  by (relation "measure (\<lambda>(ev, medication, tz, currentDate, endD, aw). nat (endD - currentDate + 1))")
     (auto simp: DAY_MS_def)

text \<open>
  \<open>createSchedules\<close>. The module refers to \<^verbatim>\<open>User\<close> but its import list names only
  \<^verbatim>\<open>Schedule\<close>, \<^verbatim>\<open>Medication\<close>, \<^verbatim>\<open>reminderQueue\<close>, \<^verbatim>\<open>logger\<close> and \<^verbatim>\<open>moment\<close>.
  The first argument says whether \<^verbatim>\<open>User\<close> is bound where the function runs:
  \<open>False\<close> is the module as it stands (evaluating the name throws), \<open>True\<close> is the
  module with the User model in scope, as the controllers import it. Without an end
  date the window ends \<open>duration\<close> days after the start; without a duration as well
  the end date is invalid and the loop body never runs.
\<close>

definition createSchedules ::
  "bool \<Rightarrow> env \<Rightarrow> medication \<Rightarrow> world \<Rightarrow> (error + schedule_doc list) \<times> world" where
  "createSchedules user_bound ev medication w =
     (if \<not> user_bound then (Inl ReferenceError, w)
      else
        (case User_findById (med_userId medication) w of
           None \<Rightarrow> (Inl TypeError, w)
         | Some u \<Rightarrow>
            (let tz = (case timezone u of None \<Rightarrow> ''UTC'' | Some z \<Rightarrow> if z = [] then ''UTC'' else z);
                 (start, w1) = (case startDate (schedule medication) of
                                  Some d \<Rightarrow> (d, w) | None \<Rightarrow> clock_read w);
                 endD = (case endDate (schedule medication) of
                           Some e \<Rightarrow> Some e
                         | None \<Rightarrow> map_option (\<lambda>d. start + d * DAY_MS)
                                     (duration (schedule medication)))
             in case endD of
                  None \<Rightarrow> (Inr [], w1)
                | Some e \<Rightarrow>
                   (let (created, w2) = day_loop ev medication tz start e ([], w1)
                    in (Inr created, w2)))))"

text \<open>
  \<open>pauseMedicationSchedules\<close>: \<^verbatim>\<open>Schedule.updateMany\<close> (no validators run, so
  \<^verbatim>\<open>'paused'\<close> is written although the schema's enum does not list it), then
  \<open>removeByMedicationId\<close>; the result is the number of documents modified.
\<close>

definition pauseMedicationSchedules :: "oid \<Rightarrow> world \<Rightarrow> nat \<times> world" where
  "pauseMedicationSchedules medicationId w =
     (let hit = (\<lambda>s. sch_medicationId s = medicationId \<and> status s = ''pending'');
          w1 = w\<lparr>schedules := map (\<lambda>s. if hit s then s\<lparr>status := ''paused''\<rparr> else s) (schedules w)\<rparr>;
          w2 = removeByMedicationId medicationId w1
      in (length (filter hit (schedules w)), w2))"

section \<open>Example states\<close>

text \<open>
  A deployment with voice calls switched off and every collaborator reachable; one user,
  one medication taken daily at 08:00 and 20:00 for seven days from
  2024-01-15T00:00Z; the clock stands at 09:00 that day.
\<close>

definition ev0 :: env where
  "ev0 = \<lparr> tzOffset = 0, ENABLE_VOICE_CALLS = Some ''false'',
           whatsapp_ok = (\<lambda>_. True), audio_ok = True, twilio_ok = True \<rparr>"

definition u1 :: user where
  "u1 = \<lparr> user_id = 1, whatsappId = ''wa1'', phoneNumber = ''+15550001'',
          voiceReminders = False, escalationEnabled = True,
          quiet = \<lparr> qh_enabled = True, qh_start = ''22:00'', qh_end = ''07:00'' \<rparr>,
          caregivers = [], subscription_type = ''free'', validUntil = None,
          clinicId = None, timezone = None \<rparr>"

definition m1 :: medication where
  "m1 = \<lparr> med_id = 2, med_userId = 1,
          schedule = \<lparr> frequency = ''daily'',
                       times = [\<lparr> ts_time = ''08:00'', ts_dose = ''1'' \<rparr>,
                                \<lparr> ts_time = ''20:00'', ts_dose = ''1'' \<rparr>],
                       daysOfWeek = [], dayOfMonth = None,
                       startDate = Some 1705276800000, endDate = None,
                       duration = Some 7 \<rparr>,
          form = Some ''tablet'', criticalMedication = False, adherence_rate = 100 \<rparr>"

definition w0 :: world where
  "w0 = \<lparr> now = 1705309200000, ticks = [], nextId = 10, users = [u1], medications = [m1],
          schedules = [], escalations = [], reminderQ = [], escalationQ = [],
          outbox = [], timers = [] \<rparr>"

text \<open>The 08:00 occurrence of that day, and states that hold it.\<close>

definition sch3 :: schedule_doc where
  "sch3 = \<lparr> sch_id = 3, sch_userId = 1, sch_medicationId = 2,
            scheduledTime = 1705305600000,
            sch_dose = \<lparr> dose_amount = ''1'', dose_unit = ''tablet'' \<rparr>,
            status = ''sent'', reminders = [], escalation_level = 0,
            lastEscalatedAt = None, caregiverAlerted = False, caregiverAlertedAt = None \<rparr>"

definition w_sent :: world where
  "w_sent = w0\<lparr>schedules := [sch3]\<rparr>"

definition w_taken :: world where
  "w_taken = w0\<lparr>schedules := [sch3\<lparr>status := ''taken''\<rparr>]\<rparr>"

text \<open>A pending occurrence due at 23:30 with its reminder job queued, seen at 09:00 and at 23:30.\<close>

definition rjob3 :: reminder_job where
  "rjob3 = \<lparr> rj_id = (3, 1705276800000), rj_scheduleId = 3, rj_isSnoozed = False,
             rj_scheduledTime = 1705361400000, rj_delay = 84600000, rj_state = Delayed \<rparr>"

definition w_pending :: world where
  "w_pending = w0\<lparr>schedules := [sch3\<lparr>status := ''pending'', scheduledTime := 1705361400000\<rparr>],
                  reminderQ := [rjob3]\<rparr>"

definition w_night :: world where
  "w_night = w_pending\<lparr>now := 1705361400000, ticks := [250]\<rparr>"

text \<open>An escalation chain under way for occurrence 3, next to one for another occurrence.\<close>

definition ejob :: "oid \<Rightarrow> int \<Rightarrow> jobstate \<Rightarrow> escalation_job" where
  "ejob sid lvl st = \<lparr> ej_id = (sid, lvl, 1705309200000), ej_scheduleId = sid, ej_level = lvl,
                       ej_scheduledFor = 1705311000000, ej_delay = 1800000, ej_state = st \<rparr>"

definition erec :: "oid \<Rightarrow> oid \<Rightarrow> int \<Rightarrow> string \<Rightarrow> escalation_doc" where
  "erec i sid lvl st = \<lparr> e_id = i, e_userId = 1, e_medicationId = 2, e_scheduleId = sid,
                         e_level = lvl, e_type = ''urgent'', e_status = st, e_caregiver = None,
                         resolved = False, resolvedAt = None, resolvedBy = None,
                         meta_criticalMedication = False, meta_adherenceRate = 100 \<rparr>"

definition w_chain :: world where
  "w_chain = w_sent\<lparr>escalationQ := [ejob 3 2 Delayed, ejob 3 1 Active, ejob 4 1 Waiting],
                    escalations := [erec 5 3 1 ''pending'', erec 6 3 1 ''sent'',
                                    erec 7 4 1 ''pending'']\<rparr>"

section \<open>Frame predicate\<close>

text \<open>Two states with the same escalation queue and the same in-process timers.\<close>

definition same_queues :: "world \<Rightarrow> world \<Rightarrow> bool" where
  "same_queues w w' \<longleftrightarrow> escalationQ w' = escalationQ w \<and> timers w' = timers w"

section \<open>Properties\<close>

subsection \<open>The clock only moves forward\<close>

lemma clock_read_mono: "now w \<le> now (snd (clock_read w))"
  by (simp add: clock_read_def split: list.split)

lemma clock_read_frame:
  "users (snd (clock_read w)) = users w"
  "medications (snd (clock_read w)) = medications w"
  "schedules (snd (clock_read w)) = schedules w"
  "escalations (snd (clock_read w)) = escalations w"
  "reminderQ (snd (clock_read w)) = reminderQ w"
  "escalationQ (snd (clock_read w)) = escalationQ w"
  "outbox (snd (clock_read w)) = outbox w"
  "timers (snd (clock_read w)) = timers w"
  "nextId (snd (clock_read w)) = nextId w"
  by (simp_all add: clock_read_def split: list.split)

subsection \<open>Negative delays: reminders refuse, escalations accept\<close>

text \<open>
  C4. When the scheduled time lies strictly before the clock reading, \<open>addReminder\<close>
  returns no job and leaves the reminder queue as it was. \<open>addEscalation\<close> always
  appends the job it returns to the escalation queue, carrying the computed delay
  whatever its sign.
\<close>

theorem addReminder_refuses_addEscalation_accepts:
  "(schedTime < now w \<longrightarrow>
      fst (addReminder sid schedTime snz w) = None \<and>
      reminderQ (snd (addReminder sid schedTime snz w)) = reminderQ w) \<and>
   escalationQ (snd (addEscalation sid lvl schedFor w)) =
      escalationQ w @ [fst (addEscalation sid lvl schedFor w)] \<and>
   ej_scheduleId (fst (addEscalation sid lvl schedFor w)) = sid \<and>
   ej_level (fst (addEscalation sid lvl schedFor w)) = lvl \<and>
   ej_delay (fst (addEscalation sid lvl schedFor w)) = schedFor - now w"
  by (simp add: addReminder_def addEscalation_def clock_read_def Let_def
        split: list.split prod.split)

text \<open>
  The refusal and the acceptance at a concrete state: a reminder due one hour ago, and an
  escalation due one millisecond ago.
\<close>

theorem addReminder_refuses_addEscalation_accepts_witness:
  "now w0 - 3600000 < now w0 \<and>
   fst (addReminder 3 (now w0 - 3600000) False w0) = None \<and>
   reminderQ (snd (addReminder 3 (now w0 - 3600000) False w0)) = reminderQ w0 \<and>
   escalationQ (snd (addEscalation 3 1 (now w0 - 1) w0)) =
     escalationQ w0 @ [fst (addEscalation 3 1 (now w0 - 1) w0)] \<and>
   ej_delay (fst (addEscalation 3 1 (now w0 - 1) w0)) = - 1"
  using addReminder_refuses_addEscalation_accepts
          [where schedTime = "now w0 - 3600000" and w = w0 and sid = 3 and snz = False
             and lvl = 1 and schedFor = "now w0 - 1"]
  by simp

subsection \<open>The race check of the escalation handler\<close>

text \<open>
  C2. When the occurrence is not found, or is found with a status other than
  \<^verbatim>\<open>'sent'\<close>, \<open>handleEscalation\<close> and \<open>checkAndEscalate\<close> return normally and
  leave the whole state as it was: nothing is sent, no escalation record is created, the
  occurrence is not written and nothing is queued or timed.
\<close>

theorem handleEscalation_skips_unless_sent:
  assumes "case Schedule_findById sid w of None \<Rightarrow> True | Some sch \<Rightarrow> status sch \<noteq> ''sent''"
  shows "handleEscalation ev sid level w = (Inr (), w) \<and>
         checkAndEscalate ev sid level w = (Inr (), w)"
  using assms
  by (auto simp: handleEscalation_def checkAndEscalate_def split: option.splits)

text \<open>
  The check at an occurrence already taken and at an identifier that names no occurrence.
\<close>

theorem handleEscalation_skips_unless_sent_witness:
  "handleEscalation ev0 3 2 w_taken = (Inr (), w_taken) \<and>
   checkAndEscalate ev0 3 2 w_taken = (Inr (), w_taken) \<and>
   Schedule_findById 3 w_taken \<noteq> None \<and>
   handleEscalation ev0 4 1 w_taken = (Inr (), w_taken) \<and>
   checkAndEscalate ev0 4 1 w_taken = (Inr (), w_taken) \<and>
   Schedule_findById 4 w_taken = None"
proof -
  have f3: "Schedule_findById 3 w_taken = Some (sch3\<lparr>status := ''taken''\<rparr>)"
    by (simp add: Schedule_findById_def w_taken_def w0_def sch3_def)
  have f4: "Schedule_findById 4 w_taken = None"
    by (simp add: Schedule_findById_def w_taken_def w0_def sch3_def)
  have h3: "case Schedule_findById 3 w_taken of None \<Rightarrow> True | Some sch \<Rightarrow> status sch \<noteq> ''sent''"
    by (simp add: f3)
  have h4: "case Schedule_findById 4 w_taken of None \<Rightarrow> True | Some sch \<Rightarrow> status sch \<noteq> ''sent''"
    by (simp add: f4)
  show ?thesis
    using handleEscalation_skips_unless_sent [OF h3, of ev0 2]
      handleEscalation_skips_unless_sent [OF h4, of ev0 1] f3 f4
    by simp
qed

subsection \<open>Cancelling an escalation chain\<close>

text \<open>
  Whichever form the identifier has, \<open>cancelEscalation\<close> rewrites exactly the escalation
  records of the occurrence whose status is \<^verbatim>\<open>'pending'\<close>, to status \<^verbatim>\<open>'cancelled'\<close>,
  resolved, stamped with the clock reading and the resolver \<^verbatim>\<open>'user'\<close>; every other
  record is unchanged.
\<close>

lemma cancelEscalation_records:
  "escalations (cancelEscalation sid w) =
     map (\<lambda>e. if e_scheduleId e = id_of sid \<and> e_status e = ''pending''
               then e\<lparr>e_status := ''cancelled'', resolved := True,
                       resolvedAt := Some (now w), resolvedBy := Some ''user''\<rparr>
               else e)
         (escalations w)"
  by (auto simp: cancelEscalation_def escalation_removeByScheduleId_def
        cancel_patch_def clock_read_def Let_def split: list.splits prod.splits)

text \<open>
  Given the string form, it keeps exactly the escalation jobs that are not both for
  the occurrence and still delayed or waiting, so no such job for the occurrence remains.
\<close>

lemma cancelEscalation_string_id:
  "escalationQ (cancelEscalation (IdString n) w) =
     filter (\<lambda>j. \<not> ((ej_state j = Delayed \<or> ej_state j = Waiting) \<and> ej_scheduleId j = n))
       (escalationQ w) \<and>
   (\<forall>j \<in> set (escalationQ (cancelEscalation (IdString n) w)).
      ej_scheduleId j = n \<longrightarrow> ej_state j \<noteq> Delayed \<and> ej_state j \<noteq> Waiting)"
  by (auto simp: cancelEscalation_def escalation_removeByScheduleId_def escalation_removable_def
        clock_read_def Let_def split: list.splits prod.splits)

text \<open>Given the ObjectId, the strict comparison matches no payload and every job stays.\<close>

lemma cancelEscalation_object_id:
  "escalationQ (cancelEscalation (ObjectId n) w) = escalationQ w"
  by (auto simp: cancelEscalation_def escalation_removeByScheduleId_def escalation_removable_def
        clock_read_def Let_def split: list.splits prod.splits)

text \<open>
  C3. A chain with one delayed and one active job for occurrence 3 and a waiting job for
  occurrence 4; records pending and sent for 3, pending for 4. Cancelled with the
  ObjectId of occurrence 3, the pending record of 3 is marked cancelled and resolved by
  the user, but the delayed job of occurrence 3 is still in the escalation queue.
  Cancelled with the string form, that job is removed and the records end the same.
\<close>

theorem cancelEscalation_objectid_keeps_delayed_job:
  "map ej_scheduleId (escalationQ w_chain) = [3, 3, 4] \<and>
   map ej_state (escalationQ w_chain) = [Delayed, Active, Waiting] \<and>
   map e_scheduleId (escalations w_chain) = [3, 3, 4] \<and>
   map e_status (escalations w_chain) = [''pending'', ''sent'', ''pending''] \<and>
   escalationQ (cancelEscalation (ObjectId 3) w_chain) =
     [ejob 3 2 Delayed, ejob 3 1 Active, ejob 4 1 Waiting] \<and>
   map e_status (escalations (cancelEscalation (ObjectId 3) w_chain)) =
     [''cancelled'', ''sent'', ''pending''] \<and>
   map resolved (escalations (cancelEscalation (ObjectId 3) w_chain)) = [True, False, False] \<and>
   map resolvedBy (escalations (cancelEscalation (ObjectId 3) w_chain)) =
     [Some ''user'', None, None] \<and>
   escalationQ (cancelEscalation (IdString 3) w_chain) = [ejob 3 1 Active, ejob 4 1 Waiting] \<and>
   map e_status (escalations (cancelEscalation (IdString 3) w_chain)) =
     [''cancelled'', ''sent'', ''pending'']"
  by code_simp

subsection \<open>Schedule expansion creates only future occurrences\<close>

lemma clock_read_cases:
  obtains t w1 where "clock_read w = (t, w1)" "t = now w" "now w \<le> now w1"
    "schedules w1 = schedules w" "reminderQ w1 = reminderQ w"
  by (cases "clock_read w") (auto simp: clock_read_def split: list.splits)

lemma addReminder_effect:
  assumes "addReminder sid st b w = (r, w')"
  shows "schedules w' = schedules w \<and> now w \<le> now w' \<and>
         (reminderQ w' = reminderQ w \<or>
          (\<exists>j. reminderQ w' = reminderQ w @ [j] \<and> rj_scheduledTime j = st \<and> rj_scheduleId j = sid))"
  using assms
  by (auto simp: addReminder_def clock_read_def Let_def split: list.splits if_splits prod.splits)

lemma Schedule_create_effect:
  assumes "Schedule_create uid mid t d w = (s, w')"
  shows "schedules w' = schedules w @ [s] \<and> scheduledTime s = t \<and> now w' = now w \<and>
         reminderQ w' = reminderQ w"
  using assms by (auto simp: Schedule_create_def Let_def)

lemma slot_loop_inv:
  assumes "slot_loop ev m tz d slots (acc, w) = (acc', w')"
  shows "\<exists>news newj. acc' = acc @ news \<and> schedules w' = schedules w @ news \<and>
           reminderQ w' = reminderQ w @ newj \<and> now w \<le> now w' \<and>
           (\<forall>s\<in>set news. now w < scheduledTime s) \<and>
           (\<forall>j\<in>set newj. now w < rj_scheduledTime j)"
  using assms
proof (induction slots arbitrary: acc w)
  case Nil
  then show ?case by simp
next
  case (Cons slot rest)
  obtain t w1 where cr: "clock_read w = (t, w1)" and t: "t = now w" and m1: "now w \<le> now w1"
    and s1: "schedules w1 = schedules w" and q1: "reminderQ w1 = reminderQ w"
    by (rule clock_read_cases)
  show ?case
  proof (cases "getScheduledTime ev d (ts_time slot) tz")
    case None
    with Cons.prems cr have "slot_loop ev m tz d rest (acc, w1) = (acc', w')"
      by (simp add: nan_less_def)
    from Cons.IH[OF this] obtain news newj where
      "acc' = acc @ news" "schedules w' = schedules w1 @ news"
      "reminderQ w' = reminderQ w1 @ newj" "now w1 \<le> now w'"
      "\<forall>s\<in>set news. now w1 < scheduledTime s" "\<forall>j\<in>set newj. now w1 < rj_scheduledTime j"
      by blast
    with m1 s1 q1 show ?thesis by fastforce
  next
    case (Some st)
    show ?thesis
    proof (cases "t < st")
      case False
      with Some Cons.prems cr have "slot_loop ev m tz d rest (acc, w1) = (acc', w')"
        by (simp add: nan_less_def)
      from Cons.IH[OF this] obtain news newj where
        "acc' = acc @ news" "schedules w' = schedules w1 @ news"
        "reminderQ w' = reminderQ w1 @ newj" "now w1 \<le> now w'"
        "\<forall>s\<in>set news. now w1 < scheduledTime s" "\<forall>j\<in>set newj. now w1 < rj_scheduledTime j"
        by blast
      with m1 s1 q1 show ?thesis by fastforce
    next
      case True
      obtain sch w2 where sc: "Schedule_create (med_userId m) (med_id m) st
          \<lparr> dose_amount = ts_dose slot, dose_unit = dose_unit_of m \<rparr> w1 = (sch, w2)"
        by (cases "Schedule_create (med_userId m) (med_id m) st
          \<lparr> dose_amount = ts_dose slot, dose_unit = dose_unit_of m \<rparr> w1") 
      obtain job w3 where ar: "addReminder (sch_id sch) st False w2 = (job, w3)"
        by (cases "addReminder (sch_id sch) st False w2")
      from Some True Cons.prems cr sc ar
      have rec: "slot_loop ev m tz d rest (acc @ [sch], w3) = (acc', w')"
        by (simp add: nan_less_def)
      from Cons.IH[OF rec] obtain news newj where ih:
        "acc' = (acc @ [sch]) @ news" "schedules w' = schedules w3 @ news"
        "reminderQ w' = reminderQ w3 @ newj" "now w3 \<le> now w'"
        "\<forall>s\<in>set news. now w3 < scheduledTime s" "\<forall>j\<in>set newj. now w3 < rj_scheduledTime j"
        by blast
      from Schedule_create_effect[OF sc] have c:
        "schedules w2 = schedules w1 @ [sch]" "scheduledTime sch = st" "now w2 = now w1"
        "reminderQ w2 = reminderQ w1" by simp_all
      from addReminder_effect[OF ar] have a:
        "schedules w3 = schedules w2" "now w2 \<le> now w3"
        "reminderQ w3 = reminderQ w2 \<or>
          (\<exists>j. reminderQ w3 = reminderQ w2 @ [j] \<and> rj_scheduledTime j = st \<and> rj_scheduleId j = sch_id sch)"
        by simp_all
      from a(3) obtain js where js: "reminderQ w3 = reminderQ w2 @ js"
        "\<forall>j\<in>set js. rj_scheduledTime j = st"
        by (metis append_Nil2 empty_iff empty_set set_ConsD)
      have mono: "now w \<le> now w3" using m1 c(3) a(2) by simp
      have "acc' = acc @ (sch # news)" using ih(1) by simp
      moreover have "schedules w' = schedules w @ (sch # news)"
        using ih(2) a(1) c(1) s1 by simp
      moreover have "reminderQ w' = reminderQ w @ (js @ newj)"
        using ih(3) js(1) c(4) q1 by simp
      moreover have "now w \<le> now w'" using mono ih(4) by simp
      moreover have "\<forall>s\<in>set (sch # news). now w < scheduledTime s"
        using ih(5) mono c(2) True t by fastforce
      moreover have "\<forall>j\<in>set (js @ newj). now w < rj_scheduledTime j"
        using ih(6) mono js(2) True t by fastforce
      ultimately show ?thesis by blast
    qed
  qed
qed

lemma day_loop_inv:
  assumes "day_loop ev m tz cur endD (acc, w) = (acc', w')"
  shows "\<exists>news newj. acc' = acc @ news \<and> schedules w' = schedules w @ news \<and>
           reminderQ w' = reminderQ w @ newj \<and> now w \<le> now w' \<and>
           (\<forall>s\<in>set news. now w < scheduledTime s) \<and>
           (\<forall>j\<in>set newj. now w < rj_scheduledTime j)"
  using assms
proof (induction ev m tz cur endD "(acc, w)" arbitrary: acc w rule: day_loop.induct)
  case (1 ev m tz cur endD)
  show ?case
  proof (cases "cur \<le> endD")
    case False
    with "1.prems" show ?thesis by simp
  next
    case True
    obtain acc1 w1 where step: "(if shouldScheduleToday ev m cur
              then slot_loop ev m tz cur (times (schedule m)) (acc, w)
              else (acc, w)) = (acc1, w1)"
      by (cases "(if shouldScheduleToday ev m cur
              then slot_loop ev m tz cur (times (schedule m)) (acc, w)
              else (acc, w))")
    have s: "\<exists>news newj. acc1 = acc @ news \<and> schedules w1 = schedules w @ news \<and>
           reminderQ w1 = reminderQ w @ newj \<and> now w \<le> now w1 \<and>
           (\<forall>s\<in>set news. now w < scheduledTime s) \<and>
           (\<forall>j\<in>set newj. now w < rj_scheduledTime j)"
    proof (cases "shouldScheduleToday ev m cur")
      case True
      with step show ?thesis using slot_loop_inv by simp
    next
      case False
      with step show ?thesis by simp
    qed
    from True "1.prems" step have rec: "day_loop ev m tz (cur + DAY_MS) endD (acc1, w1) = (acc', w')"
      by (simp del: day_loop.simps add: day_loop.simps[of ev m tz cur endD])
    have "\<exists>news newj. acc' = acc1 @ news \<and> schedules w' = schedules w1 @ news \<and>
           reminderQ w' = reminderQ w1 @ newj \<and> now w1 \<le> now w' \<and>
           (\<forall>s\<in>set news. now w1 < scheduledTime s) \<and>
           (\<forall>j\<in>set newj. now w1 < rj_scheduledTime j)"
      using "1.hyps"[OF True _ rec] step by simp
    then obtain n2 j2 where b: "acc' = acc1 @ n2" "schedules w' = schedules w1 @ n2"
           "reminderQ w' = reminderQ w1 @ j2" "now w1 \<le> now w'"
           "\<forall>s\<in>set n2. now w1 < scheduledTime s" "\<forall>j\<in>set j2. now w1 < rj_scheduledTime j"
      by blast
    from s obtain n1 j1 where a: "acc1 = acc @ n1" "schedules w1 = schedules w @ n1"
           "reminderQ w1 = reminderQ w @ j1" "now w \<le> now w1"
           "\<forall>s\<in>set n1. now w < scheduledTime s" "\<forall>j\<in>set j1. now w < rj_scheduledTime j"
      by blast
    have "acc' = acc @ (n1 @ n2)" using a(1) b(1) by simp
    moreover have "schedules w' = schedules w @ (n1 @ n2)" using a(2) b(2) by simp
    moreover have "reminderQ w' = reminderQ w @ (j1 @ j2)" using a(3) b(3) by simp
    moreover have "now w \<le> now w'" using a(4) b(4) by simp
    moreover have "\<forall>s\<in>set (n1 @ n2). now w < scheduledTime s" using a(4,5) b(5) by fastforce
    moreover have "\<forall>j\<in>set (j1 @ j2). now w < rj_scheduledTime j" using a(4,6) b(6) by fastforce
    ultimately show ?thesis by blast
  qed
qed

text \<open>
  C5. Whatever the schedule definition, \<open>createSchedules\<close> only appends to the
  occurrence store and to the reminder queue, every occurrence it appends and every job it
  enqueues is due strictly after the clock reading at the call, and the list it returns is
  exactly the list of occurrences it stored. A slot that is not strictly in the future
  therefore yields no occurrence, no stored record and no job. When the call fails
  nothing has been stored or enqueued.
\<close>

theorem createSchedules_only_future:
  assumes "createSchedules ub ev m w = (r, w')"
  shows "take (length (schedules w)) (schedules w') = schedules w \<and>
         take (length (reminderQ w)) (reminderQ w') = reminderQ w \<and>
         (\<forall>s \<in> set (drop (length (schedules w)) (schedules w')). now w < scheduledTime s) \<and>
         (\<forall>j \<in> set (drop (length (reminderQ w)) (reminderQ w')). now w < rj_scheduledTime j) \<and>
         (case r of Inr created \<Rightarrow> created = drop (length (schedules w)) (schedules w')
                  | Inl e \<Rightarrow> schedules w' = schedules w \<and> reminderQ w' = reminderQ w)"
proof -
  have "\<exists>news newj. schedules w' = schedules w @ news \<and> reminderQ w' = reminderQ w @ newj \<and>
          (\<forall>s\<in>set news. now w < scheduledTime s) \<and>
          (\<forall>j\<in>set newj. now w < rj_scheduledTime j) \<and>
          (case r of Inr created \<Rightarrow> created = news | Inl e \<Rightarrow> news = [] \<and> newj = [])"
  proof (cases "ub \<and> User_findById (med_userId m) w \<noteq> None")
    case False
    with assms have "w' = w" "\<exists>e. r = Inl e"
      by (auto simp: createSchedules_def split: option.splits if_splits)
    then show ?thesis by auto
  next
    case True
    obtain start w1 where st: "(case startDate (schedule m) of
                                  Some d \<Rightarrow> (d, w) | None \<Rightarrow> clock_read w) = (start, w1)"
      by (cases "(case startDate (schedule m) of
                                  Some d \<Rightarrow> (d, w) | None \<Rightarrow> clock_read w)")
    then have w1: "schedules w1 = schedules w" "reminderQ w1 = reminderQ w" "now w \<le> now w1"
      by (auto simp: clock_read_def split: option.splits list.splits)
    let ?endD = "(case endDate (schedule m) of
                           Some e \<Rightarrow> Some e
                         | None \<Rightarrow> map_option (\<lambda>d. start + d * DAY_MS)
                                     (duration (schedule m)))"
    show ?thesis
    proof (cases ?endD)
      case None
      with True assms st have "w' = w1" "r = Inr []"
        by (auto simp: createSchedules_def split: option.splits)
      with w1 show ?thesis by simp
    next
      case (Some e)
      obtain tz where tz: "tz = (case timezone (the (User_findById (med_userId m) w)) of
                              None \<Rightarrow> ''UTC'' | Some z \<Rightarrow> if z = [] then ''UTC'' else z)"
        by simp
      obtain created w2 where dl: "day_loop ev m tz start e ([], w1) = (created, w2)"
        by (cases "day_loop ev m tz start e ([], w1)")
      with True assms st Some tz have res: "w' = w2" "r = Inr created"
        by (auto simp: createSchedules_def split: option.splits)
      from day_loop_inv[OF dl] obtain news newj where
        "created = [] @ news" "schedules w2 = schedules w1 @ news"
        "reminderQ w2 = reminderQ w1 @ newj"
        "\<forall>s\<in>set news. now w1 < scheduledTime s" "\<forall>j\<in>set newj. now w1 < rj_scheduledTime j"
        by blast
      with res w1 show ?thesis by fastforce
    qed
  qed
  then obtain news newj where *: "schedules w' = schedules w @ news"
      "reminderQ w' = reminderQ w @ newj"
      "\<forall>s\<in>set news. now w < scheduledTime s"
      "\<forall>j\<in>set newj. now w < rj_scheduledTime j"
      "case r of Inr created \<Rightarrow> created = news | Inl e \<Rightarrow> news = [] \<and> newj = []"
    by blast
  then show ?thesis by (auto split: sum.splits)
qed

text \<open>
  An expansion at 09:00 with the clock advancing during the call, into a store and a
  queue that already hold an entry: fifteen occurrences and fifteen jobs are added.
\<close>

theorem createSchedules_only_future_witness:
  "length (drop (length (schedules w_pending))
            (schedules (snd (createSchedules True ev0 m1 (w_pending\<lparr>ticks := [1000, 2000]\<rparr>))))) = 15 \<and>
   length (drop (length (reminderQ w_pending))
            (reminderQ (snd (createSchedules True ev0 m1 (w_pending\<lparr>ticks := [1000, 2000]\<rparr>))))) = 15 \<and>
   list_all (\<lambda>s. now w_pending < scheduledTime s)
     (drop (length (schedules w_pending))
        (schedules (snd (createSchedules True ev0 m1 (w_pending\<lparr>ticks := [1000, 2000]\<rparr>))))) \<and>
   list_all (\<lambda>j. now w_pending < rj_scheduledTime j)
     (drop (length (reminderQ w_pending))
        (reminderQ (snd (createSchedules True ev0 m1 (w_pending\<lparr>ticks := [1000, 2000]\<rparr>)))))"
proof -
  let ?w = "w_pending\<lparr>ticks := [1000, 2000]\<rparr>"
  have n: "length (drop (length (schedules w_pending))
            (schedules (snd (createSchedules True ev0 m1 ?w)))) = 15"
    by code_simp
  have k: "length (drop (length (reminderQ w_pending))
            (reminderQ (snd (createSchedules True ev0 m1 ?w)))) = 15"
    by code_simp
  have e: "createSchedules True ev0 m1 ?w =
             (fst (createSchedules True ev0 m1 ?w), snd (createSchedules True ev0 m1 ?w))"
    by simp
  have f: "schedules ?w = schedules w_pending" "reminderQ ?w = reminderQ w_pending"
     "now ?w = now w_pending"
    by simp_all
  show ?thesis
    using createSchedules_only_future [OF e] n k unfolding f list_all_iff by blast
qed

subsection \<open>Reminders that fire in quiet hours\<close>

lemma isQuietHours_inside:
  assumes "qh_enabled (quiet u)"
    and "parseInt (before_colon (qh_start (quiet u))) = Some s"
    and "parseInt (before_colon (qh_end (quiet u))) = Some e"
    and "if s \<le> e then s \<le> getHours ev (now w) \<and> getHours ev (now w) < e
         else s \<le> getHours ev (now w) \<or> getHours ev (now w) < e"
  shows "isQuietHours ev u w = (True, snd (clock_read w))"
  using assms
  by (auto simp: isQuietHours_def nan_le_def nan_less_def clock_read_def Let_def
        split: list.splits if_splits)

text \<open>
  C10. For a pending occurrence whose user has quiet hours enabled, with start hour
  \<open>s\<close> and end hour \<open>e\<close>, and a current hour inside the window (from \<open>s\<close> up to
  but excluding \<open>e\<close>, or wrapping past midnight when \<open>e < s\<close>), \<open>sendReminder\<close>
  returns normally and changes nothing but the clock: nothing is sent, the occurrence
  is as it was, no escalation is scheduled and no reminder job is added.
\<close>

theorem sendReminder_quiet_hours_drop:
  assumes "Schedule_findById sid w = Some sch" and "status sch = ''pending''"
    and "User_findById (sch_userId sch) w = Some u"
    and "qh_enabled (quiet u)"
    and "parseInt (before_colon (qh_start (quiet u))) = Some s"
    and "parseInt (before_colon (qh_end (quiet u))) = Some e"
    and "if s \<le> e then s \<le> getHours ev (now w) \<and> getHours ev (now w) < e
         else s \<le> getHours ev (now w) \<or> getHours ev (now w) < e"
  shows "sendReminder ev sid w = (Inr (), snd (clock_read w)) \<and>
         outbox (snd (sendReminder ev sid w)) = outbox w \<and>
         schedules (snd (sendReminder ev sid w)) = schedules w \<and>
         Schedule_findById sid (snd (sendReminder ev sid w)) = Some sch \<and>
         escalations (snd (sendReminder ev sid w)) = escalations w \<and>
         escalationQ (snd (sendReminder ev sid w)) = escalationQ w \<and>
         reminderQ (snd (sendReminder ev sid w)) = reminderQ w \<and>
         timers (snd (sendReminder ev sid w)) = timers w"
proof -
  have q: "isQuietHours ev u w = (True, snd (clock_read w))"
    using assms(4-7) by (rule isQuietHours_inside)
  have r: "sendReminder ev sid w = (Inr (), snd (clock_read w))"
    using assms(1-3) q by (simp add: sendReminder_def)
  show ?thesis
    using assms(1) by (simp add: r clock_read_frame Schedule_findById_def)
qed

text \<open>
  Quiet hours 22:00 to 07:00, a reminder firing at 23:30.
\<close>

theorem sendReminder_quiet_hours_drop_witness:
  "status (sch3\<lparr>status := ''pending'', scheduledTime := 1705361400000\<rparr>) = ''pending'' \<and>
   qh_enabled (quiet u1) \<and> getHours ev0 (now w_night) = 23 \<and>
   fst (sendReminder ev0 3 w_night) = Inr () \<and>
   outbox (snd (sendReminder ev0 3 w_night)) = [] \<and>
   schedules (snd (sendReminder ev0 3 w_night)) = schedules w_night \<and>
   escalationQ (snd (sendReminder ev0 3 w_night)) = [] \<and>
   reminderQ (snd (sendReminder ev0 3 w_night)) = [rjob3]"
proof -
  have a1: "Schedule_findById 3 w_night = Some (sch3\<lparr>status := ''pending'', scheduledTime := 1705361400000\<rparr>)"
    by (simp add: Schedule_findById_def w_night_def w_pending_def w0_def sch3_def)
  have a2: "status (sch3\<lparr>status := ''pending'', scheduledTime := 1705361400000\<rparr>) = ''pending''"
    by simp
  have a3: "User_findById (sch_userId (sch3\<lparr>status := ''pending'', scheduledTime := 1705361400000\<rparr>)) w_night = Some u1"
    by (simp add: User_findById_def w_night_def w_pending_def w0_def sch3_def u1_def)
  have a4: "qh_enabled (quiet u1)" by (simp add: u1_def)
  have a5: "parseInt (before_colon (qh_start (quiet u1))) = Some 22"
    by code_simp
  have a6: "parseInt (before_colon (qh_end (quiet u1))) = Some 7"
    by code_simp
  have h: "getHours ev0 (now w_night) = 23"
    by (simp add: getHours_def ev0_def w_night_def w_pending_def w0_def)
  have a7: "if (22::int) \<le> 7 then 22 \<le> getHours ev0 (now w_night) \<and> getHours ev0 (now w_night) < 7
         else 22 \<le> getHours ev0 (now w_night) \<or> getHours ev0 (now w_night) < 7"
    by (simp add: h)
  have f: "outbox w_night = []" "escalationQ w_night = []" "reminderQ w_night = [rjob3]"
    by (simp_all add: w_night_def w_pending_def w0_def)
  show ?thesis
    using sendReminder_quiet_hours_drop [OF a1 a2 a3 a4 a5 a6 a7] a4 h f
    by (simp add: clock_read_frame)
qed

subsection \<open>Continuation of the escalation chain\<close>

text \<open>
  The delay table of the escalation service, and the job that \<open>scheduleEscalation\<close>
  enqueues. The handler itself never continues the chain: the guard compares the level
  with a constant that \<^verbatim>\<open>CONSTANTS.LIMITS\<close> does not define, so neither a job nor a
  timer is ever added.
\<close>

lemma getEscalationDelay_table:
  "getEscalationDelay 1 = 1800000 \<and> getEscalationDelay 2 = 900000 \<and>
   getEscalationDelay 3 = 900000 \<and> getEscalationDelay 4 = 600000 \<and>
   getEscalationDelay 5 = 300000 \<and>
   (level < 1 \<or> 5 < level \<longrightarrow> getEscalationDelay level = 1800000)"
  by (auto simp: getEscalationDelay_def delays_def)

lemma scheduleEscalation_enqueues:
  "\<exists>j. escalationQ (scheduleEscalation sid level w) = escalationQ w @ [j] \<and>
        ej_scheduleId j = sid \<and> ej_level j = level \<and>
        ej_scheduledFor j = now w + getEscalationDelay level"
  by (auto simp: scheduleEscalation_def addEscalation_def clock_read_def Let_def
        split: list.splits prod.splits)

lemma same_queues_refl: "same_queues w w"
  by (simp add: same_queues_def)

lemma same_queues_trans: "same_queues a b \<Longrightarrow> same_queues b c \<Longrightarrow> same_queues a c"
  by (simp add: same_queues_def)

lemma clock_read_same: "same_queues w (snd (clock_read w))"
  by (simp add: same_queues_def clock_read_frame)

lemma andThen_same:
  assumes "same_queues w (snd r)" and "\<And>a w1. same_queues w1 (snd (f a w1))"
  shows "same_queues w (snd (andThen r f))"
proof (cases r)
  case (Pair x w1)
  show ?thesis
  proof (cases x)
    case (Inl e)
    with Pair assms(1) show ?thesis by (simp add: andThen_def)
  next
    case (Inr a)
    with Pair have "snd (andThen r f) = snd (f a w1)" by (simp add: andThen_def)
    moreover have "same_queues w w1" using assms(1) Pair by simp
    ultimately show ?thesis using assms(2) same_queues_trans by metis
  qed
qed

lemma sendMessage_same: "same_queues w (snd (sendMessage ev to tpl w))"
  by (simp add: sendMessage_def same_queues_def)

lemma sendVoiceNote_same: "same_queues w (snd (sendVoiceNote ev to w))"
  by (simp add: sendVoiceNote_def same_queues_def)

lemma generateAudio_same: "same_queues w (snd (generateAudio ev w))"
  by (simp add: generateAudio_def same_queues_def)

lemma Escalation_create_same: "same_queues w (snd (Escalation_create a b c l t cr r w))"
  by (simp add: Escalation_create_def same_queues_def Let_def)

lemma sendUrgentReminder_same: "same_queues w (snd (sendUrgentReminder ev u w))"
proof -
  have "same_queues (snd (clock_read w))
          (snd (sendMessage ev (whatsappId u) UrgentReminder (snd (clock_read w))))"
    by (rule sendMessage_same)
  then show ?thesis
    using clock_read_same [of w] same_queues_trans
    by (fastforce simp: sendUrgentReminder_def split: prod.splits)
qed

lemma sendVoiceReminder_same: "same_queues w (snd (sendVoiceReminder ev u w))"
proof (cases "voiceReminders u")
  case False
  then show ?thesis by (simp add: sendVoiceReminder_def sendUrgentReminder_same)
next
  case True
  let ?w1 = "snd (clock_read w)"
  have "same_queues ?w1
     (snd (andThen (generateAudio ev ?w1) (\<lambda>_ w2.
           andThen (sendVoiceNote ev (whatsappId u) w2) (\<lambda>_ w3.
           sendMessage ev (whatsappId u) PleaseRespond w3))))"
    by (intro andThen_same generateAudio_same sendVoiceNote_same sendMessage_same)
  then have "same_queues w
     (snd (andThen (generateAudio ev ?w1) (\<lambda>_ w2.
           andThen (sendVoiceNote ev (whatsappId u) w2) (\<lambda>_ w3.
           sendMessage ev (whatsappId u) PleaseRespond w3))))"
    using clock_read_same [of w] same_queues_trans by blast
  with True show ?thesis
    by (simp add: sendVoiceReminder_def split: prod.splits) (metis snd_conv)
qed

lemma makeVoiceCall_same: "same_queues w (snd (makeVoiceCall ev u w))"
proof (cases "twilio_ok ev")
  case True
  then show ?thesis
    by (simp add: makeVoiceCall_def js_strict_eq_def js_not_def same_queues_def
          clock_read_def split: prod.splits list.splits)
next
  case False
  then have "makeVoiceCall ev u w = sendVoiceReminder ev u (snd (clock_read w))"
    by (simp add: makeVoiceCall_def js_strict_eq_def js_not_def split: prod.splits)
  then show ?thesis
    using sendVoiceReminder_same [of "snd (clock_read w)" ev u] clock_read_same [of w]
      same_queues_trans by metis
qed

lemma alertCaregiver_same: "same_queues w (snd (alertCaregiver ev u sch esc w))"
  by (simp add: alertCaregiver_def sendMessage_def Schedule_save_def Escalation_save_def
        same_queues_def clock_read_def Let_def split: list.splits prod.splits)

lemma alertClinic_same: "same_queues w (snd (alertClinic ev u w))"
  by (simp add: alertClinic_def sendMessage_same same_queues_refl split: option.splits)

lemma level_action_same: "same_queues w (snd (level_action ev level u sch esc w))"
  by (simp add: level_action_def sendUrgentReminder_same sendVoiceReminder_same
        makeVoiceCall_same alertCaregiver_same alertClinic_same same_queues_refl)

lemma handleEscalation_never_continues:
  "same_queues w (snd (handleEscalation ev sid level w))"
proof (cases "Schedule_findById sid w")
  case None
  then show ?thesis by (simp add: handleEscalation_def same_queues_refl)
next
  case (Some sch)
  show ?thesis
  proof (cases "status sch = ''sent''")
    case False
    with Some show ?thesis by (simp add: handleEscalation_def same_queues_refl)
  next
    case sent: True
    show ?thesis
    proof (cases "User_findById (sch_userId sch) w")
      case None
      with Some sent show ?thesis by (simp add: handleEscalation_def same_queues_refl)
    next
      case u: (Some u)
      show ?thesis
      proof (cases "Medication_findById (sch_medicationId sch) w")
        case None
        with Some sent u show ?thesis by (simp add: handleEscalation_def same_queues_refl)
      next
        case m: (Some m)
        show ?thesis
          unfolding handleEscalation_def
          using Some sent u m
          by (simp del: split_paired_All)
             (intro andThen_same Escalation_create_same level_action_same,
              simp add: js_less_def LIMITS_MAX_ESCALATION_LEVEL_def Schedule_save_def
                same_queues_def clock_read_def split: prod.splits list.splits)
      qed
    qed
  qed
qed

text \<open>
  C1. Level 1 handled for an occurrence in status \<^verbatim>\<open>'sent'\<close>: the urgent reminder
  is sent, the escalation record is created and the occurrence is stamped with level 1,
  but no level-2 job is in the escalation queue afterwards and no timer is registered.
\<close>

theorem handleEscalation_level1_enqueues_nothing:
  "status sch3 = ''sent'' \<and>
   fst (handleEscalation ev0 3 1 w_sent) = Inr () \<and>
   outbox (snd (handleEscalation ev0 3 1 w_sent)) = [TextMessage ''wa1'' UrgentReminder] \<and>
   map e_level (escalations (snd (handleEscalation ev0 3 1 w_sent))) = [1] \<and>
   map escalation_level (schedules (snd (handleEscalation ev0 3 1 w_sent))) = [1] \<and>
   escalationQ (snd (handleEscalation ev0 3 1 w_sent)) = [] \<and>
   timers (snd (handleEscalation ev0 3 1 w_sent)) = []"
  by code_simp

subsection \<open>Pausing a medication\<close>

lemma pause_keeps_reminder_queue:
  "reminderQ (snd (pauseMedicationSchedules mid w)) = reminderQ w"
  by (simp add: pauseMedicationSchedules_def removeByMedicationId_def Let_def)

text \<open>
  A reminder job that fires for an occurrence that is not pending does nothing, so the
  job left in the queue sends no message while the occurrence is paused.
\<close>

lemma sendReminder_skips_unless_pending:
  "(case Schedule_findById sid w of None \<Rightarrow> True | Some sch \<Rightarrow> status sch \<noteq> ''pending'')
     \<Longrightarrow> sendReminder ev sid w = (Inr (), w)"
  by (auto simp: sendReminder_def split: option.splits)

text \<open>
  C6. Pausing medication 2 turns its pending occurrence into \<^verbatim>\<open>'paused'\<close>, while
  the delayed reminder job of that occurrence is still in the reminder queue afterwards.
\<close>

theorem pause_leaves_reminder_job_queued:
  "fst (pauseMedicationSchedules 2 w_pending) = 1 \<and>
   map sch_medicationId (schedules w_pending) = [2] \<and>
   map status (schedules w_pending) = [''pending''] \<and>
   map status (schedules (snd (pauseMedicationSchedules 2 w_pending))) = [''paused''] \<and>
   rj_scheduleId rjob3 = 3 \<and> rj_state rjob3 = Delayed \<and>
   reminderQ (snd (pauseMedicationSchedules 2 w_pending)) = [rjob3]"
  by code_simp

subsection \<open>The seven-day scenario\<close>

lemma createSchedules_unbound:
  "createSchedules False ev medication w = (Inl ReferenceError, w)"
  by (simp add: createSchedules_def)

text \<open>
  C7. Daily at 08:00 and 20:00, no end date, duration 7, expanded at 09:00 on the start
  date: with the User model in scope the loop visits eight days (the end date is start
  plus seven days, and the comparison includes it) and creates fifteen occurrences,
  whether the start date is given as that day's midnight or left to default to the call
  time; with the module as it stands the call fails with a ReferenceError and creates
  none.
\<close>

theorem createSchedules_scenario_count:
  "getHours ev0 (now w0) = 9 \<and>
   (case fst (createSchedules True ev0 m1 w0) of
      Inr created \<Rightarrow> length created | Inl e \<Rightarrow> 0) = 15 \<and>
   length (schedules (snd (createSchedules True ev0 m1 w0))) = 15 \<and>
   length (reminderQ (snd (createSchedules True ev0 m1 w0))) = 15 \<and>
   (case fst (createSchedules True ev0
                (m1\<lparr>schedule := (schedule m1)\<lparr>startDate := None\<rparr>\<rparr>) w0) of
      Inr created \<Rightarrow> length created | Inl e \<Rightarrow> 0) = 15 \<and>
   fst (createSchedules False ev0 m1 w0) = Inl ReferenceError \<and>
   schedules (snd (createSchedules False ev0 m1 w0)) = []"
  by code_simp

subsection \<open>The voice call of level 3\<close>

lemma voice_call_guard_never_holds:
  "\<not> js_strict_eq (js_not v) (JString ''true'')"
  by (simp add: js_strict_eq_def js_not_def)

lemma makeVoiceCall_places_call_whatever_the_flag:
  "twilio_ok ev \<Longrightarrow>
   outbox (snd (makeVoiceCall ev u w)) = outbox w @ [VoiceCall (phoneNumber u)]"
  by (simp add: makeVoiceCall_def voice_call_guard_never_holds clock_read_def Let_def
        split: list.splits prod.splits)

lemma makeVoiceCall_fallback:
  "\<not> twilio_ok ev \<Longrightarrow>
   makeVoiceCall ev u w = sendVoiceReminder ev u (snd (clock_read w))"
  by (simp add: makeVoiceCall_def voice_call_guard_never_holds Let_def split: prod.splits)

text \<open>
  C8. With \<^verbatim>\<open>ENABLE_VOICE_CALLS\<close> set to \<^verbatim>\<open>'false'\<close>, and likewise with the variable
  unset, level 3 places the voice call; the level-2 behaviour is not performed instead.
\<close>

theorem makeVoiceCall_ignores_disabled_flag:
  "ENABLE_VOICE_CALLS ev0 = Some ''false'' \<and>
   fst (handleEscalation ev0 3 3 w_sent) = Inr () \<and>
   outbox (snd (handleEscalation ev0 3 3 w_sent)) = [VoiceCall ''+15550001''] \<and>
   outbox (snd (makeVoiceCall ev0 u1 w_sent)) = [VoiceCall ''+15550001''] \<and>
   outbox (snd (makeVoiceCall (ev0\<lparr>ENABLE_VOICE_CALLS := None\<rparr>) u1 w_sent)) =
     [VoiceCall ''+15550001''] \<and>
   outbox (snd (sendVoiceReminder ev0 u1 w_sent)) = [TextMessage ''wa1'' UrgentReminder]"
  by code_simp

subsection \<open>The escalation record of each level\<close>

lemma Escalation_create_rejects:
  "fst (Escalation_create uid mid sid level (getEscalationType level) crit rate w)
     = Inl ValidationError \<longleftrightarrow> level \<notin> {1, 3, 4, 5}"
  by (auto simp: Escalation_create_def getEscalationType_def types_def escalation_type_enum_def Let_def)

text \<open>
  C9. Level 2 handled for an occurrence in status \<^verbatim>\<open>'sent'\<close>: the computed type
  \<^verbatim>\<open>'voice_reminder'\<close> is not in the schema's enum, so the creation is rejected, the
  handler fails with the validation error, and no record exists afterwards.
\<close>

theorem handleEscalation_level2_record_rejected:
  "status sch3 = ''sent'' \<and> getEscalationType 2 = ''voice_reminder'' \<and>
   handleEscalation ev0 3 2 w_sent = (Inl ValidationError, w_sent) \<and>
   escalations (snd (handleEscalation ev0 3 2 w_sent)) = [] \<and>
   outbox (snd (handleEscalation ev0 3 2 w_sent)) = []"
  by code_simp

end
